theory Spec2Isabelle
  imports Complex_Main
begin

section \<open>Numbers, vectors and matrices\<close>

text \<open>
  The library computes in single-precision floating point on Eigen's dense vectors and
  matrices. The embedding idealises every \<open>float\<close> as a \<open>real\<close>: rounding and
  overflow are not modelled, and every statement below is a statement about the control
  flow and the exact arithmetic of the source. HOL's \<open>x / 0\<close> is \<open>0\<close> and its
  \<open>sqrt\<close> of a negative number is a negative number, where the source gets an infinity
  or NaN; the definitions of \<open>get_speed_limit\<close> and of the interior-point loop have a
  branch of their own for the divisions by zero and the roots of negative numbers that
  they can reach.

  A dynamic vector (\<open>Eigen::VectorXf\<close>) is a list of its coefficients, its \<open>size()\<close>
  the length of the list. A dynamic matrix (\<open>Eigen::MatrixXf\<close>) carries its two
  dimensions and a coefficient function, so that a matrix with no rows still has a number
  of columns, as in Eigen.

  The operations below are Eigen's on operands of matching sizes. Where the source can
  reach an Eigen operation with operands of different sizes, the function that does so
  has a branch of its own for it (the outcome \<open>Eigen_fault\<close> below).
\<close>

type_synonym vec = "real list"

record mat =
  rows :: nat
  cols :: nat
  coeff :: "nat \<Rightarrow> nat \<Rightarrow> real"

definition dot :: "vec \<Rightarrow> vec \<Rightarrow> real" where
  "dot a b = (\<Sum>p\<leftarrow>zip a b. fst p * snd p)"

definition vadd :: "vec \<Rightarrow> vec \<Rightarrow> vec" where
  "vadd a b = map (\<lambda>p. fst p + snd p) (zip a b)"

definition vsub :: "vec \<Rightarrow> vec \<Rightarrow> vec" where
  "vsub a b = map (\<lambda>p. fst p - snd p) (zip a b)"

definition smul :: "real \<Rightarrow> vec \<Rightarrow> vec" where
  "smul a v = map (\<lambda>x. a * x) v"

definition norm2 :: "vec \<Rightarrow> real" where
  "norm2 v = sqrt (\<Sum>x\<leftarrow>v. x * x)"

definition Zero :: "nat \<Rightarrow> vec" where
  "Zero m = replicate m 0"

definition mrow :: "mat \<Rightarrow> nat \<Rightarrow> vec" where
  "mrow M i = map (coeff M i) [0..<cols M]"

definition mat_vec :: "mat \<Rightarrow> vec \<Rightarrow> vec" where
  "mat_vec M v = map (\<lambda>i. \<Sum>j\<leftarrow>[0..<cols M]. coeff M i j * v ! j) [0..<rows M]"

definition mat_mul :: "mat \<Rightarrow> mat \<Rightarrow> mat" where
  "mat_mul A B = \<lparr>rows = rows A, cols = cols B,
     coeff = (\<lambda>i j. \<Sum>l\<leftarrow>[0..<cols A]. coeff A i l * coeff B l j)\<rparr>"

definition transpose_mat :: "mat \<Rightarrow> mat" where
  "transpose_mat A = \<lparr>rows = cols A, cols = rows A, coeff = (\<lambda>i j. coeff A j i)\<rparr>"

definition Identity :: "nat \<Rightarrow> nat \<Rightarrow> mat" where
  "Identity r c = \<lparr>rows = r, cols = c, coeff = (\<lambda>i j. if i = j then 1 else 0)\<rparr>"

definition mat_add :: "mat \<Rightarrow> mat \<Rightarrow> mat" where
  "mat_add A B = \<lparr>rows = rows A, cols = cols A,
     coeff = (\<lambda>i j. coeff A i j + coeff B i j)\<rparr>"

definition mat_scale :: "real \<Rightarrow> mat \<Rightarrow> mat" where
  "mat_scale a A = \<lparr>rows = rows A, cols = cols A, coeff = (\<lambda>i j. a * coeff A i j)\<rparr>"

definition outer :: "vec \<Rightarrow> vec \<Rightarrow> mat" where
  "outer a b = \<lparr>rows = length a, cols = length b, coeff = (\<lambda>i j. a ! i * b ! j)\<rparr>"

definition trace :: "mat \<Rightarrow> real" where
  "trace A = (\<Sum>i\<leftarrow>[0..<min (rows A) (cols A)]. coeff A i i)"

section \<open>Diagnostics and outcomes\<close>

text \<open>
  A message written to \<open>std::cerr\<close> or \<open>std::cout\<close> is a \<open>diag\<close> value naming
  its severity and the function that wrote it. An operation on Eigen objects of mismatched
  sizes stops in Eigen's size assertion (and is undefined when assertions are compiled
  out): the outcome \<open>Eigen_fault\<close>. A call whose arithmetic has produced an infinity or
  NaN returns a vector that is not a vector of real numbers: the outcome \<open>Not_finite\<close>.
\<close>

datatype diag = ERROR string | WARNING string

datatype 'a outcome = Eigen_fault | Not_finite | Returned "diag list" 'a

section \<open>Poses\<close>

text \<open>
  A pose (\<open>Eigen::Isometry3f\<close>) is kept as its translation and the unit quaternion that
  Eigen constructs from its rotation part (\<open>Eigen::Quaternionf q(pose.rotation())\<close>,
  library code). The quaternion operations are Eigen's: the Hamilton product, the
  conjugate, the four-dimensional dot product and the vector part \<open>vec()\<close>.
\<close>

type_synonym vec3 = "real \<times> real \<times> real"

record quaternion =
  qw :: real
  qx :: real
  qy :: real
  qz :: real

record pose =
  translation :: vec3
  orientation :: quaternion

definition conjugate :: "quaternion \<Rightarrow> quaternion" where
  "conjugate a = \<lparr>qw = qw a, qx = - qx a, qy = - qy a, qz = - qz a\<rparr>"

definition quat_mul :: "quaternion \<Rightarrow> quaternion \<Rightarrow> quaternion" where
  "quat_mul a b =
     \<lparr>qw = qw a * qw b - qx a * qx b - qy a * qy b - qz a * qz b,
      qx = qw a * qx b + qx a * qw b + qy a * qz b - qz a * qy b,
      qy = qw a * qy b + qy a * qw b + qz a * qx b - qx a * qz b,
      qz = qw a * qz b + qz a * qw b + qx a * qy b - qy a * qx b\<rparr>"

definition quat_dot :: "quaternion \<Rightarrow> quaternion \<Rightarrow> real" where
  "quat_dot a b = qw a * qw b + qx a * qx b + qy a * qy b + qz a * qz b"

definition quat_vec :: "quaternion \<Rightarrow> vec" where
  "quat_vec a = [qx a, qy a, qz a]"

definition sub3 :: "vec3 \<Rightarrow> vec3 \<Rightarrow> vec" where
  "sub3 a b =
     (case a of (ax, ay, az) \<Rightarrow> case b of (bx, by, bz) \<Rightarrow> [ax - bx, ay - by, az - bz])"

section \<open>The kinematic control state\<close>

text \<open>
  The members of \<open>SerialKinematicControl\<close> and of the base class it reads each cycle
  (declared outside the given sources): the joint count \<open>n\<close>, the gains \<open>k\<close> and
  \<open>kp\<close>, the control period \<open>dt\<close>, the joint positions \<open>q[i]\<close> (also
  \<open>get_joint_position(i)\<close>), the joint velocities (\<open>get_joint_velocity(i)\<close>), the
  position, velocity and acceleration limits, and the snapshot returned by
  \<open>get_jacobian()\<close>, \<open>get_inertia()\<close> and \<open>get_endpoint_pose()\<close>.
\<close>

record robot =
  n_joints :: nat
  gain_k :: real
  gain_kp :: real
  dt :: real
  joint_position :: "nat \<Rightarrow> real"
  joint_velocity :: "nat \<Rightarrow> real"
  pLim :: "nat \<Rightarrow> real \<times> real"
  vLim :: "nat \<Rightarrow> real"
  aLim :: "nat \<Rightarrow> real"
  jacobian :: mat
  inertia :: mat
  endpoint_pose :: pose

definition get_joint_velocities :: "robot \<Rightarrow> vec" where
  "get_joint_velocities s = map (joint_velocity s) [0..<n_joints s]"

definition get_joint_positions :: "robot \<Rightarrow> vec" where
  "get_joint_positions s = map (joint_position s) [0..<n_joints s]"

subsection \<open>get_pose_error\<close>

definition get_pose_error :: "pose \<Rightarrow> pose \<Rightarrow> vec" where
  "get_pose_error desired actual =
     (let qd = orientation desired;
          qa = orientation actual;
          qe = quat_mul qd (conjugate qa)
      in sub3 (translation desired) (translation actual)
         @ (if quat_dot qd qa \<le> 0 then quat_vec qe else map uminus (quat_vec qe)))"

subsection \<open>Pose::error\<close>

text \<open>
  The library's second pose-error function, a member of the class \<open>Pose\<close>, which stores
  the position and the unit quaternion themselves. \<open>acos\<close> is \<open>arccos\<close>, which takes
  its values in \<open>[0, pi]\<close> on arguments between \<open>-1\<close> and \<open>1\<close>.
\<close>

definition cross :: "vec \<Rightarrow> vec \<Rightarrow> vec" where
  "cross a b = [a ! 1 * b ! 2 - a ! 2 * b ! 1,
                a ! 2 * b ! 0 - a ! 0 * b ! 2,
                a ! 0 * b ! 1 - a ! 1 * b ! 0]"

definition Pose_error :: "pose \<Rightarrow> pose \<Rightarrow> vec" where
  "Pose_error this desired =
     (let angle = arccos (quat_dot (orientation desired) (orientation this))
      in sub3 (translation desired) (translation this)
         @ (if angle < pi then
              vsub (vsub (smul (qw (orientation this)) (quat_vec (orientation desired)))
                         (smul (qw (orientation desired)) (quat_vec (orientation this))))
                   (cross (quat_vec (orientation desired)) (quat_vec (orientation this)))
            else
              vadd (vsub (smul (qw (orientation desired)) (quat_vec (orientation this)))
                         (smul (qw (orientation this)) (quat_vec (orientation desired))))
                   (cross (quat_vec (orientation desired)) (quat_vec (orientation this)))))"

subsection \<open>get_speed_limit\<close>

text \<open>
  \<open>get_speed_limit(lower, upper, i)\<close> writes its two results through its first and
  second reference parameter: the pair returned here, in that order. The root of a
  negative number is NaN in the source; \<open>std::max(v, a)\<close> and \<open>std::min(v, a)\<close> compare
  with \<open><\<close> and return \<open>v\<close> when \<open>a\<close> is NaN, so the acceleration term drops out of
  the bound of a joint that is beyond the limit concerned. The control period \<open>dt\<close> is
  the inverse of the control frequency and is not zero.
\<close>

definition get_speed_limit :: "robot \<Rightarrow> nat \<Rightarrow> real \<times> real" where
  "get_speed_limit s i =
     (let p = (fst (pLim s i) - joint_position s i) / dt s;
          v = - vLim s i;
          r = aLim s i * (joint_position s i - fst (pLim s i));
          lower = (if r < 0 then max p v else max p (max v (- 2 * sqrt r)));
          p' = (snd (pLim s i) - joint_position s i) / dt s;
          v' = vLim s i;
          r' = aLim s i * (snd (pLim s i) - joint_position s i);
          upper = (if r' < 0 then min p' v' else min p' (min v' (2 * sqrt r')))
      in (lower, upper))"

subsection \<open>get_joint_penalty\<close>

definition penalty_gradient :: "robot \<Rightarrow> nat \<Rightarrow> real" where
  "penalty_gradient s i =
     (let q = joint_position s i;
          lower = q - fst (pLim s i);
          upper = snd (pLim s i) - q;
          range = snd (pLim s i) - fst (pLim s i)
      in (range * range * (2 * q - snd (pLim s i) - fst (pLim s i)))
         / (4 * upper * upper * lower * lower))"

definition get_joint_penalty :: "robot \<Rightarrow> nat \<Rightarrow> real" where
  "get_joint_penalty s i =
     (let q = joint_position s i;
          lower = q - fst (pLim s i);
          upper = snd (pLim s i) - q;
          range = snd (pLim s i) - fst (pLim s i);
          dpdq = penalty_gradient s i
      in if dpdq * joint_velocity s i > 0.0 then range * range / (4 * upper * lower)
         else 1.0)"

subsection \<open>move_to_position and the two-argument track_joint_trajectory\<close>

definition limit_speed :: "real \<times> real \<Rightarrow> real \<Rightarrow> real" where
  "limit_speed lu c =
     (let lower = fst lu; upper = snd lu
      in if c < lower then lower else if c > upper then upper else c)"

definition move_to_position :: "robot \<Rightarrow> vec \<Rightarrow> diag list \<times> vec" where
  "move_to_position s pos =
     (if length pos \<noteq> n_joints s then
        ([ERROR ''move_to_position''], smul 0.9 (get_joint_velocities s))
      else ([], map (\<lambda>i. limit_speed (get_speed_limit s i)
                           (gain_k s * (pos ! i - joint_position s i)))
                    [0..<n_joints s]))"

definition track_joint_trajectory :: "robot \<Rightarrow> vec \<Rightarrow> vec \<Rightarrow> diag list \<times> vec" where
  "track_joint_trajectory s pos vel =
     (if length pos \<noteq> n_joints s \<or> length vel \<noteq> n_joints s then
        ([ERROR ''track_joint_trajectory''], smul 0.9 (get_joint_velocities s))
      else ([], map (\<lambda>i. limit_speed (get_speed_limit s i)
                           (vel ! i + gain_k s * (pos ! i - joint_position s i)))
                    [0..<n_joints s]))"

subsection \<open>The three-argument track_joint_trajectory\<close>

text \<open>
  The overload with an acceleration argument hands its command to \<open>move_joints\<close>, a
  member that the given sources do not define: it is the parameter \<open>mj\<close>, a function of
  the control state and of the command.
\<close>

definition track_joint_trajectory_acc ::
  "(robot \<Rightarrow> vec \<Rightarrow> vec) \<Rightarrow> robot \<Rightarrow> vec \<Rightarrow> vec \<Rightarrow> vec \<Rightarrow> diag list \<times> vec" where
  "track_joint_trajectory_acc mj s pos vel acc =
     (if length pos \<noteq> n_joints s \<or> length vel \<noteq> n_joints s \<or> length acc \<noteq> n_joints s
      then ([ERROR ''track_joint_trajectory''], Zero (n_joints s))
      else ([], mj s (vadd vel (smul (gain_kp s) (vsub pos (get_joint_positions s))))))"

subsection \<open>solve_joint_control\<close>

text \<open>
  The loop runs from the last joint to the first; \<open>sjc_loop s y U m qdot\<close> performs the
  iterations \<open>i = m - 1, ..., 0\<close> on the partly filled \<open>qdot\<close>. The source calls
  \<open>get_speed_limit(upper, lower, i)\<close>: its local \<open>upper\<close> receives the first result
  and its local \<open>lower\<close> the second. The call \<open>abs(U(i,i))\<close> is read as the absolute
  value of a floating-point number.
\<close>

fun sjc_loop :: "robot \<Rightarrow> vec \<Rightarrow> mat \<Rightarrow> nat \<Rightarrow> vec \<Rightarrow> vec" where
  "sjc_loop s y U 0 qdot = qdot"
| "sjc_loop s y U (Suc i) qdot =
     (let sum = (\<Sum>j\<leftarrow>[Suc i..<n_joints s]. coeff U i j * qdot ! j);
          v = (if \<bar>coeff U i i\<bar> < 1 / 100000 then 0.9 * joint_velocity s i
               else (y ! i - sum) / coeff U i i);
          upper = fst (get_speed_limit s i);
          lower = snd (get_speed_limit s i);
          v' = (if v < lower then lower else if v > upper then upper else v)
      in sjc_loop s y U i (qdot[i := v']))"

definition solve_joint_control :: "robot \<Rightarrow> vec \<Rightarrow> mat \<Rightarrow> diag list \<times> vec" where
  "solve_joint_control s y U =
     (if length y \<noteq> n_joints s then
        ([ERROR ''solve_joint_control''], smul 0.9 (get_joint_velocities s))
      else if rows U \<noteq> n_joints s \<or> cols U \<noteq> n_joints s then
        ([ERROR ''solve_joint_control''], smul 0.9 (get_joint_velocities s))
      else ([], sjc_loop s y U (n_joints s) (Zero (n_joints s))))"

section \<open>The quadratic-program solver\<close>

text \<open>
  The tuning members of \<open>QPSolver\<close> are declared in its header, which is not among the
  given sources: they are the fields of \<open>qp_params\<close>, and every theorem holds for all
  their values unless it says otherwise.
\<close>

record qp_params =
  alpha0 :: real
  alphaMod :: real
  beta0 :: real
  betaMod :: real
  tol :: real
  u0 :: real
  uMod :: real
  steps :: int

text \<open>
  Functions that the sources call and do not define are the fields of \<open>externals\<close>:
  Eigen's \<open>I.partialPivLu().solve(b)\<close> and \<open>determinant()\<close>, and the library's own
  \<open>solve_linear_system\<close>, \<open>get_pseudoinverse\<close> and \<open>get_partial_derivative\<close>.
\<close>

record externals =
  partialPivLu_solve :: "mat \<Rightarrow> vec \<Rightarrow> vec"
  solve_linear_system :: "vec \<Rightarrow> mat \<Rightarrow> vec \<Rightarrow> vec"
  determinant :: "mat \<Rightarrow> real"
  get_pseudoinverse :: "mat \<Rightarrow> mat"
  get_partial_derivative :: "robot \<Rightarrow> mat \<Rightarrow> nat \<Rightarrow> mat"

subsection \<open>solve, unconstrained\<close>

definition solve :: "externals \<Rightarrow> mat \<Rightarrow> vec \<Rightarrow> vec \<Rightarrow> diag list \<times> vec" where
  "solve E H f x0 =
     (let n = length x0
      in if rows H \<noteq> n \<or> cols H \<noteq> n \<or> length f \<noteq> n then ([ERROR ''solve''], x0)
         else ([], solve_linear_system E f H x0))"

subsection \<open>solve, with inequality constraints\<close>

text \<open>
  The variables that live across the iterations of the interior-point loop: the iterate
  \<open>x\<close>, the previous iterate \<open>x_prev\<close>, the barrier weight \<open>u\<close> and its decay rate
  \<open>beta\<close>.
\<close>

record ip_state =
  ip_x :: vec
  ip_x_prev :: vec
  ip_u :: real
  ip_beta :: real

text \<open>
  The variables of the loop over the constraints (lines 102 to 115): the flag
  \<open>violation\<close>, the running \<open>u\<close>, the gradient \<open>g\<close>, the Hessian \<open>I\<close> and the
  distances \<open>d[0]\<close> to \<open>d[j - 1]\<close> stored so far. A distance \<open>d[j]\<close> that is exactly
  zero makes the quotients \<open>u/d[j]\<close> and \<open>u/(d[j]*d[j])\<close> infinite (or NaN) in the
  source: \<open>acc_finite\<close> records that this has not happened, and \<open>g\<close> and \<open>I\<close> are
  those of the source as long as it holds.
\<close>

record ip_acc =
  violation :: bool
  acc_u :: real
  acc_g :: vec
  acc_I :: mat
  acc_d :: "real list"
  acc_finite :: bool

definition constraint_step :: "qp_params \<Rightarrow> mat \<Rightarrow> vec \<Rightarrow> vec \<Rightarrow> ip_acc \<Rightarrow> nat \<Rightarrow> ip_acc" where
  "constraint_step P B c x a j =
     (let bt = mrow B j;
          d0 = dot bt x - c ! j;
          viol = d0 < 0;
          d = (if viol then 1 / 100 else d0);
          u = (if viol then acc_u a * uMod P else acc_u a)
      in \<lparr>violation = (violation a \<or> viol),
          acc_u = u,
          acc_g = vadd (acc_g a) (smul (- (u / d)) bt),
          acc_I = mat_add (acc_I a) (mat_scale (u / (d * d)) (outer bt bt)),
          acc_d = acc_d a @ [d],
          acc_finite = (acc_finite a \<and> d \<noteq> 0)\<rparr>)"

definition constraint_pass :: "qp_params \<Rightarrow> mat \<Rightarrow> mat \<Rightarrow> vec \<Rightarrow> vec \<Rightarrow> real \<Rightarrow> ip_acc" where
  "constraint_pass P H B c x u =
     foldl (constraint_step P B c x)
       \<lparr>violation = False, acc_u = u, acc_g = Zero (length x), acc_I = H, acc_d = [],
        acc_finite = True\<rparr>
       [0..<rows B]"

text \<open>The accumulator after the first \<open>m\<close> constraints of the pass.\<close>

definition pass_upto :: "qp_params \<Rightarrow> mat \<Rightarrow> mat \<Rightarrow> vec \<Rightarrow> vec \<Rightarrow> real \<Rightarrow> nat \<Rightarrow> ip_acc" where
  "pass_upto P H B c x u m =
     foldl (constraint_step P B c x)
       \<lparr>violation = False, acc_u = u, acc_g = Zero (length x), acc_I = H, acc_d = [],
        acc_finite = True\<rparr>
       [0..<m]"

text \<open>
  The step-size search (lines 128 to 132). The inner \<open>while\<close> loop has no bound of its
  own, so it is a partial function: \<open>None\<close> is a loop that never ends. The distances
  that reach it are positive (an iteration with a zero distance is a \<open>Nan_step\<close>), and
  on a positive distance the search ends for every \<open>alphaMod\<close> below 1
  (\<open>shrink_terminates\<close> below).
\<close>

partial_function (option) shrink :: "real \<Rightarrow> real \<Rightarrow> real \<Rightarrow> real \<Rightarrow> real option" where
  "shrink am d s alpha = (if d + alpha * s < 0 then shrink am d s (alpha * am) else Some alpha)"

fun step_size :: "real \<Rightarrow> vec \<Rightarrow> (real \<times> vec) list \<Rightarrow> real \<Rightarrow> real option" where
  "step_size am dx [] alpha = Some alpha"
| "step_size am dx (db # rest) alpha =
     (case shrink am (fst db) (dot (snd db) dx) alpha of
        None \<Rightarrow> None
      | Some alpha' \<Rightarrow> step_size am dx rest alpha')"

text \<open>
  The first half of an iteration (lines 96 to 125), up to the Newton step: the iterate
  \<open>x\<close> after a possible return to the previous one, the decay rate \<open>beta\<close>, the
  running \<open>u\<close>, the distances \<open>d\<close>, the gradient \<open>g\<close>, the Hessian \<open>I\<close> and the
  step \<open>dx\<close>; \<open>w_finite\<close> is the flag of the pass over the constraints. The dense
  solver is taken to return real numbers on a system of real numbers.
\<close>

record ip_work =
  w_x :: vec
  w_beta :: real
  w_u :: real
  w_d :: "real list"
  w_g :: vec
  w_I :: mat
  w_dx :: vec
  w_finite :: bool

definition newton_direction ::
  "externals \<Rightarrow> qp_params \<Rightarrow> mat \<Rightarrow> vec \<Rightarrow> mat \<Rightarrow> vec \<Rightarrow> ip_state \<Rightarrow> ip_work" where
  "newton_direction E P H f B c st =
     (let a = constraint_pass P H B c (ip_x st) (ip_u st);
          x = (if violation a then ip_x_prev st else ip_x st);
          beta = (if violation a then ip_beta st + betaMod P * (1.0 - ip_beta st)
                  else ip_beta st);
          g = vadd (acc_g a) (vsub (mat_vec H x) f);
          dx = partialPivLu_solve E (acc_I a) (map uminus g)
      in \<lparr>w_x = x, w_beta = beta, w_u = acc_u a, w_d = acc_d a, w_g = g, w_I = acc_I a,
          w_dx = dx, w_finite = acc_finite a\<rparr>)"

text \<open>
  The second half (lines 127 to 139): the step size, the test that leaves the loop, and
  the update of \<open>x_prev\<close>, \<open>x\<close> and \<open>u\<close>. After a division by a zero distance the
  gradient, the Hessian and with them the step \<open>dx\<close> are infinite or NaN: the tests
  \<open>d[j] + alpha*bt[j].dot(dx) < 0\<close> and \<open>alpha*dx.norm() < tol\<close> are then false, \<open>x\<close>
  becomes NaN and stays so in every later iteration, in which no test succeeds either,
  and the function returns it when the iterations are used up. The embedding does not
  follow these iterations: such an iteration is \<open>Nan_step\<close> and ends the run with the
  outcome \<open>Not_finite\<close>.
\<close>

datatype ip_ctl = Break vec | Continue ip_state | Nan_step

definition ip_iteration ::
  "externals \<Rightarrow> qp_params \<Rightarrow> mat \<Rightarrow> vec \<Rightarrow> mat \<Rightarrow> vec \<Rightarrow> ip_state \<Rightarrow> ip_ctl option" where
  "ip_iteration E P H f B c st =
     (let w = newton_direction E P H f B c st
      in if \<not> w_finite w then Some Nan_step
         else
           case step_size (alphaMod P) (w_dx w) (zip (w_d w) (map (mrow B) [0..<rows B]))
                  (alpha0 P) of
             None \<Rightarrow> None
           | Some alpha \<Rightarrow>
               Some (if alpha * norm2 (w_dx w) < tol P then Break (w_x w)
                     else Continue \<lparr>ip_x = vadd (w_x w) (smul alpha (w_dx w)),
                                    ip_x_prev = w_x w, ip_u = w_u w * w_beta w,
                                    ip_beta = w_beta w\<rparr>))"

text \<open>
  The \<open>for\<close> loop over \<open>i < steps\<close>: \<open>ip_loop E P H f B c m st\<close> runs the \<open>m\<close>
  iterations that remain and yields what the function returns; the loop writes no
  diagnostic.
\<close>

fun ip_loop ::
  "externals \<Rightarrow> qp_params \<Rightarrow> mat \<Rightarrow> vec \<Rightarrow> mat \<Rightarrow> vec \<Rightarrow> nat \<Rightarrow> ip_state
     \<Rightarrow> vec outcome option" where
  "ip_loop E P H f B c 0 st = Some (Returned [] (ip_x st))"
| "ip_loop E P H f B c (Suc m) st =
     (case ip_iteration E P H f B c st of
        None \<Rightarrow> None
      | Some (Break x) \<Rightarrow> Some (Returned [] x)
      | Some (Continue st') \<Rightarrow> ip_loop E P H f B c m st'
      | Some Nan_step \<Rightarrow> Some Not_finite)"

text \<open>
  The dimension check does not look at \<open>B.cols()\<close>. When it passes and the loop body runs
  with at least one constraint, its first operation \<open>bt[0].dot(x)\<close> is on vectors of
  \<open>B.cols()\<close> and \<open>n\<close> coefficients: an Eigen fault when these differ.
\<close>

text \<open>The values of \<open>x\<close>, \<open>x_prev\<close>, \<open>u\<close> and \<open>beta\<close> before the first iteration.\<close>

definition ip_start :: "qp_params \<Rightarrow> vec \<Rightarrow> ip_state" where
  "ip_start P x0 = \<lparr>ip_x = x0, ip_x_prev = x0, ip_u = u0 P, ip_beta = beta0 P\<rparr>"

definition solve_ineq ::
  "externals \<Rightarrow> qp_params \<Rightarrow> mat \<Rightarrow> vec \<Rightarrow> mat \<Rightarrow> vec \<Rightarrow> vec \<Rightarrow> vec outcome option" where
  "solve_ineq E P H f B c x0 =
     (let n = length x0
      in if rows H \<noteq> n \<or> cols H \<noteq> n \<or> length f \<noteq> n \<or> rows B \<noteq> length c then
           Some (Returned [ERROR ''solve''] x0)
         else if 0 < steps P \<and> 0 < rows B \<and> cols B \<noteq> n then Some Eigen_fault
         else ip_loop E P H f B c (nat (steps P)) (ip_start P x0))"



subsection \<open>The constraints in the words of the specification\<close>

text \<open>
  The slack of constraint \<open>j\<close> at \<open>x\<close> is \<open>d\<^sub>j = B\<^sub>j x - c\<^sub>j\<close>; \<open>x\<close> is feasible when
  no slack is negative, that is \<open>B x \<ge> c\<close> componentwise. The clamped slack replaces a
  negative slack by the floor \<open>0.01\<close>. \<open>violated_upto B c x m\<close> lists the violated
  constraints among the first \<open>m\<close>, and \<open>barrier_weight\<close> is the barrier weight after
  one multiplication by \<open>uMod\<close> for each of them.
\<close>

definition slack :: "mat \<Rightarrow> vec \<Rightarrow> vec \<Rightarrow> nat \<Rightarrow> real" where
  "slack B c x j = dot (mrow B j) x - c ! j"

definition feasible :: "mat \<Rightarrow> vec \<Rightarrow> vec \<Rightarrow> bool" where
  "feasible B c x = list_all (\<lambda>j. 0 \<le> slack B c x j) [0..<rows B]"

definition clamped_slack :: "mat \<Rightarrow> vec \<Rightarrow> vec \<Rightarrow> nat \<Rightarrow> real" where
  "clamped_slack B c x j = (if slack B c x j < 0 then 1 / 100 else slack B c x j)"

definition violated_upto :: "mat \<Rightarrow> vec \<Rightarrow> vec \<Rightarrow> nat \<Rightarrow> nat list" where
  "violated_upto B c x m = filter (\<lambda>j. slack B c x j < 0) [0..<m]"

definition barrier_weight :: "qp_params \<Rightarrow> mat \<Rightarrow> vec \<Rightarrow> vec \<Rightarrow> real \<Rightarrow> nat \<Rightarrow> real" where
  "barrier_weight P B c x u m = u * uMod P ^ length (violated_upto B c x m)"


subsection \<open>least_squares with box constraints\<close>

definition box_B :: "nat \<Rightarrow> mat" where
  "box_B n = \<lparr>rows = 2 * n, cols = n,
     coeff = (\<lambda>i j. if i < n then (if i = j then - 1 else 0)
                     else (if i - n = j then 1 else 0))\<rparr>"

definition box_c :: "vec \<Rightarrow> vec \<Rightarrow> vec" where
  "box_c xMin xMax = map uminus xMax @ xMin"

definition least_squares_box ::
  "externals \<Rightarrow> qp_params \<Rightarrow> vec \<Rightarrow> mat \<Rightarrow> mat \<Rightarrow> vec \<Rightarrow> vec \<Rightarrow> vec \<Rightarrow> vec outcome option" where
  "least_squares_box E P y A W xMin xMax x0 =
     (let m = rows A; n = cols A
      in if length y \<noteq> m \<or> length x0 \<noteq> n \<or> length xMin \<noteq> n \<or> length xMax \<noteq> n
            \<or> length x0 \<noteq> n then
           Some (Returned [ERROR ''least_squares''] x0)
         else if rows W \<noteq> m \<or> cols W \<noteq> m then Some (Returned [ERROR ''least_squares''] x0)
         else let AtW = mat_mul (transpose_mat A) W
              in solve_ineq E P (mat_mul AtW A) (mat_vec AtW y) (box_B n) (box_c xMin xMax) x0)"

subsection \<open>least_squares with an equality constraint and box constraints\<close>

text \<open>
  This overload does not check the sizes of \<open>xMin\<close> and \<open>xMax\<close>; the assignments
  \<open>c.head(n) = -xMax\<close> and \<open>c.tail(n) = xMin\<close> are Eigen faults when they differ
  from \<open>n\<close>.
\<close>

definition kkt_H :: "mat \<Rightarrow> mat \<Rightarrow> mat" where
  "kkt_H A W = (let m = rows A; n = cols A in
     \<lparr>rows = m + n, cols = m + n,
      coeff = (\<lambda>i j. if i < m then (if j < m then 0 else coeff A i (j - m))
                      else (if j < m then coeff A j (i - m) else coeff W (i - m) (j - m)))\<rparr>)"

definition kkt_B :: "nat \<Rightarrow> nat \<Rightarrow> mat" where
  "kkt_B m n = \<lparr>rows = 2 * n, cols = m + n,
     coeff = (\<lambda>i j. if j < m then 0
                     else if i < n then (if i = j - m then - 1 else 0)
                     else (if i - n = j - m then 1 else 0))\<rparr>"

definition least_squares_eq_box ::
  "externals \<Rightarrow> qp_params \<Rightarrow> vec \<Rightarrow> mat \<Rightarrow> vec \<Rightarrow> mat \<Rightarrow> vec \<Rightarrow> vec \<Rightarrow> vec
     \<Rightarrow> vec outcome option" where
  "least_squares_eq_box E P xd W y A xMin xMax x0 =
     (let m = rows A; n = cols A
      in if length xd \<noteq> n \<or> length y \<noteq> m \<or> length x0 \<noteq> n then
           Some (Returned [ERROR ''least_squares''] x0)
         else if rows W \<noteq> n \<or> cols W \<noteq> n then Some (Returned [ERROR ''least_squares''] x0)
         else if length xMax \<noteq> n \<or> length xMin \<noteq> n then Some Eigen_fault
         else
           (case solve_ineq E P (kkt_H A W) (y @ mat_vec W xd) (kkt_B m n)
                   (box_c xMin xMax) (Zero m @ x0) of
              None \<Rightarrow> None
            | Some Eigen_fault \<Rightarrow> Some Eigen_fault
            | Some Not_finite \<Rightarrow> Some Not_finite
            | Some (Returned ds state) \<Rightarrow> Some (Returned ds (drop m state))))"

section \<open>The control laws that call the solver\<close>

subsection \<open>singularity_avoidance\<close>

text \<open>
  With a positive scalar the function writes \<open>grad(0)\<close> before anything else: on a robot
  without joints that is a write outside a vector of size zero, an Eigen fault.
\<close>

definition singularity_avoidance :: "externals \<Rightarrow> robot \<Rightarrow> real \<Rightarrow> vec outcome" where
  "singularity_avoidance E s scalar =
     (if scalar \<le> 0 then Returned [ERROR ''singularity_avoidance''] (Zero (n_joints s))
      else
        (let J = jacobian s;
             invJ = get_pseudoinverse E J;
             mu = sqrt (determinant E (mat_mul J (transpose_mat J)))
         in if n_joints s = 0 then Eigen_fault
            else Returned []
                   (0.0 # map (\<lambda>i. scalar * mu
                                 * trace (mat_mul (get_partial_derivative E s J i) invJ))
                            [1..<n_joints s])))"

subsection \<open>move_at_speed\<close>

text \<open>
  The velocity argument has the fixed size six in the source. \<open>penalised_inertia\<close> is
  the matrix \<open>W\<close> after the loop \<open>W(i,i) += get_joint_penalty(i) - 1\<close> over the
  joints, \<open>get_inertia()\<close> being \<open>n\<close> by \<open>n\<close>.
\<close>

definition penalised_inertia :: "robot \<Rightarrow> mat" where
  "penalised_inertia s = (let W = inertia s in
     W\<lparr>coeff := (\<lambda>i j. if i = j \<and> i < n_joints s
                         then coeff W i i + (get_joint_penalty s i - 1) else coeff W i j)\<rparr>)"

definition move_at_speed :: "externals \<Rightarrow> qp_params \<Rightarrow> robot \<Rightarrow> vec \<Rightarrow> vec \<Rightarrow> vec outcome option" where
  "move_at_speed E P s vel redundant =
     (if length redundant \<noteq> n_joints s then
        Some (Returned [ERROR ''move_at_speed''] (smul 0.9 (get_joint_velocities s)))
      else
        (let J = jacobian s;
             xMin = map (\<lambda>i. fst (get_speed_limit s i)) [0..<n_joints s];
             xMax = map (\<lambda>i. snd (get_speed_limit s i)) [0..<n_joints s]
         in if n_joints s \<le> 6 then
              least_squares_box E P vel J (Identity (n_joints s) (n_joints s)) xMin xMax
                (smul 0.5 (vadd xMin xMax))
            else
              least_squares_eq_box E P redundant (penalised_inertia s) vel J xMin xMax
                (get_joint_velocities s)))"

text \<open>The diagnostics written before a call come before those of the call.\<close>

definition after_diags :: "diag list \<Rightarrow> 'a outcome option \<Rightarrow> 'a outcome option" where
  "after_diags ds r =
     (case r of None \<Rightarrow> None
      | Some Eigen_fault \<Rightarrow> Some Eigen_fault
      | Some Not_finite \<Rightarrow> Some Not_finite
      | Some (Returned ds' v) \<Rightarrow> Some (Returned (ds @ ds') v))"

definition move_at_speed_default ::
  "externals \<Rightarrow> qp_params \<Rightarrow> robot \<Rightarrow> vec \<Rightarrow> vec outcome option" where
  "move_at_speed_default E P s vel =
     (if n_joints s \<le> 6 then move_at_speed E P s vel (Zero (n_joints s))
      else (case singularity_avoidance E s 0.5 of
              Eigen_fault \<Rightarrow> Some Eigen_fault
            | Not_finite \<Rightarrow> Some Not_finite
            | Returned ds r \<Rightarrow> after_diags ds (move_at_speed E P s vel r)))"

subsection \<open>move_to_pose and track_cartesian_trajectory\<close>

definition move_to_pose_default :: "externals \<Rightarrow> qp_params \<Rightarrow> robot \<Rightarrow> pose \<Rightarrow> vec outcome option" where
  "move_to_pose_default E P s p =
     move_at_speed_default E P s (smul (gain_k s) (get_pose_error p (endpoint_pose s)))"

definition move_to_pose ::
  "externals \<Rightarrow> qp_params \<Rightarrow> robot \<Rightarrow> pose \<Rightarrow> vec \<Rightarrow> vec outcome option" where
  "move_to_pose E P s p redundancy =
     (if length redundancy \<noteq> n_joints s then
        Some (Returned [ERROR ''move_to_pose''] (smul 0.9 (get_joint_velocities s)))
      else move_at_speed E P s (smul (gain_k s) (get_pose_error p (endpoint_pose s)))
             redundancy)"

definition track_cartesian_trajectory_default ::
  "externals \<Rightarrow> qp_params \<Rightarrow> robot \<Rightarrow> pose \<Rightarrow> vec \<Rightarrow> vec outcome option" where
  "track_cartesian_trajectory_default E P s p vel =
     move_at_speed_default E P s
       (vadd vel (smul (gain_k s) (get_pose_error p (endpoint_pose s))))"

definition track_cartesian_trajectory ::
  "externals \<Rightarrow> qp_params \<Rightarrow> robot \<Rightarrow> pose \<Rightarrow> vec \<Rightarrow> vec \<Rightarrow> vec outcome option" where
  "track_cartesian_trajectory E P s p vel redundant =
     (if length redundant \<noteq> n_joints s then
        Some (Returned [ERROR ''track_cartesian_trajectory''] (smul 0.9 (get_joint_velocities s)))
      else move_at_speed E P s
             (vadd vel (smul (gain_k s) (get_pose_error p (endpoint_pose s)))) redundant)"

section \<open>Sample inputs\<close>

text \<open>
  Values at which the theorems below are evaluated. \<open>gauss\<close> is Gaussian elimination
  with partial pivoting on the rows of an augmented matrix, the method behind Eigen's
  \<open>partialPivLu().solve\<close>; the other externals of \<open>sample_externals\<close> are
  stand-ins with the right types. \<open>sample_params\<close> are plausible tuning values of the
  solver, with an iteration cap of twenty; \<open>short_params\<close> start from a smaller barrier
  weight and stop after two iterations.
\<close>

fun extract_pivot :: "vec \<Rightarrow> vec list \<Rightarrow> vec \<times> vec list" where
  "extract_pivot r [] = (r, [])"
| "extract_pivot r (r' # rs) =
     (if \<bar>hd r\<bar> < \<bar>hd r'\<bar> then
        (fst (extract_pivot r' rs), r # snd (extract_pivot r' rs))
      else (fst (extract_pivot r rs), r' # snd (extract_pivot r rs)))"

lemma length_extract_pivot: "length (snd (extract_pivot r rs)) = length rs"
  by (induction rs arbitrary: r) simp_all

function gauss :: "vec list \<Rightarrow> vec" where
  "gauss [] = []"
| "gauss (r # rs) =
     (let p = fst (extract_pivot r rs);
          others = snd (extract_pivot r rs);
          reduced = map (\<lambda>r'. vsub (tl r') (smul (hd r' / hd p) (tl p))) others;
          xs = gauss reduced
      in ((last p - dot (butlast (tl p)) xs) / hd p) # xs)"
  by pat_completeness auto
termination
  by (relation "measure length") (auto simp: length_extract_pivot)

definition eigen_lu :: "mat \<Rightarrow> vec \<Rightarrow> vec" where
  "eigen_lu M b = gauss (map (\<lambda>i. mrow M i @ [b ! i]) [0..<rows M])"

definition sample_externals :: externals where
  "sample_externals =
     \<lparr>partialPivLu_solve = eigen_lu,
      solve_linear_system = (\<lambda>f H x0. eigen_lu H f),
      determinant = (\<lambda>M. 1),
      get_pseudoinverse = transpose_mat,
      get_partial_derivative = (\<lambda>s J i. J)\<rparr>"

definition sample_params :: qp_params where
  "sample_params =
     \<lparr>alpha0 = 1, alphaMod = 1 / 2, beta0 = 1 / 100, betaMod = 1 / 10, tol = 1 / 100,
      u0 = 100, uMod = 10, steps = 20\<rparr>"

definition short_params :: qp_params where
  "short_params =
     \<lparr>alpha0 = 1, alphaMod = 1 / 2, beta0 = 1 / 100, betaMod = 1 / 10, tol = 1 / 100,
      u0 = 1, uMod = 10, steps = 2\<rparr>"

definition pass_command :: "robot \<Rightarrow> vec \<Rightarrow> vec" where
  "pass_command s v = v"

definition identity_pose :: pose where
  "identity_pose = \<lparr>translation = (0, 0, 0), orientation = \<lparr>qw = 1, qx = 0, qy = 0, qz = 0\<rparr>\<rparr>"

definition turned_pose :: pose where
  "turned_pose =
     \<lparr>translation = (0, 0, 0), orientation = \<lparr>qw = 3 / 5, qx = 4 / 5, qy = 0, qz = 0\<rparr>\<rparr>"

definition arm1 :: robot where
  "arm1 = \<lparr>n_joints = 1, gain_k = 1, gain_kp = 1, dt = 1,
     joint_position = (\<lambda>i. 0), joint_velocity = (\<lambda>i. 1),
     pLim = (\<lambda>i. (- 1, 1)), vLim = (\<lambda>i. 1), aLim = (\<lambda>i. 1),
     jacobian = \<lparr>rows = 6, cols = 1, coeff = (\<lambda>i j. if i = 0 then 1 else 0)\<rparr>,
     inertia = Identity 1 1,
     endpoint_pose = identity_pose\<rparr>"

definition arm1_off_centre :: robot where
  "arm1_off_centre = arm1\<lparr>joint_position := (\<lambda>i. 1 / 2)\<rparr>"

text \<open>
  A box-constrained problem in one unknown, \<open>0 \<le> x \<le> 1\<close>, and the three states that
  the loop passes through from \<open>x0 = 1/2\<close> under \<open>short_params\<close>.
\<close>

definition unit_H :: mat where "unit_H = Identity 1 1"

definition unit_box_B :: mat where "unit_box_B = box_B 1"

definition unit_box_c :: vec where "unit_box_c = box_c [0] [1]"




definition state_outside :: ip_state where
  "state_outside = \<lparr>ip_x = [5], ip_x_prev = [1 / 2], ip_u = 1, ip_beta = 1 / 100\<rparr>"

definition state_inside :: ip_state where
  "state_inside = \<lparr>ip_x = [1 / 2], ip_x_prev = [1 / 4], ip_u = 1, ip_beta = 1 / 100\<rparr>"

definition wide_B :: mat where
  "wide_B = \<lparr>rows = 1, cols = 2, coeff = (\<lambda>i j. 1)\<rparr>"

section \<open>The joint-limit penalty\<close>

lemma four_mul_le_square_sum:
  fixes a b :: real
  shows "4 * a * b \<le> (a + b) * (a + b)"
proof -
  have "0 \<le> (a - b) * (a - b)" by simp
  then show ?thesis by (simp add: algebra_simps)
qed

text \<open>
  Claim C9. For a joint strictly inside its position limits, \<open>get_joint_penalty\<close> returns
  exactly 1 when the penalty gradient times the joint velocity is not positive, and
  otherwise the penalty \<open>range\<^sup>2 / (4 upper lower)\<close>; the value returned is at least 1 in
  both cases.
\<close>

theorem get_joint_penalty_cases:
  assumes "fst (pLim s i) < joint_position s i"
    and "joint_position s i < snd (pLim s i)"
  shows "(penalty_gradient s i * joint_velocity s i \<le> 0 \<longrightarrow> get_joint_penalty s i = 1)
       \<and> (penalty_gradient s i * joint_velocity s i > 0 \<longrightarrow>
            get_joint_penalty s i =
              (snd (pLim s i) - fst (pLim s i)) * (snd (pLim s i) - fst (pLim s i))
              / (4 * (snd (pLim s i) - joint_position s i)
                   * (joint_position s i - fst (pLim s i))))
       \<and> 1 \<le> get_joint_penalty s i"
proof -
  let ?lo = "joint_position s i - fst (pLim s i)"
  let ?up = "snd (pLim s i) - joint_position s i"
  have pos: "0 < 4 * ?up * ?lo" using assms by simp
  have "4 * ?up * ?lo \<le> (?up + ?lo) * (?up + ?lo)"
    by (rule four_mul_le_square_sum)
  then have "1 \<le> (?up + ?lo) * (?up + ?lo) / (4 * ?up * ?lo)"
    using pos by (simp add: le_divide_eq)
  moreover have "?up + ?lo = snd (pLim s i) - fst (pLim s i)" by simp
  ultimately have ge: "1 \<le> (snd (pLim s i) - fst (pLim s i))
      * (snd (pLim s i) - fst (pLim s i)) / (4 * ?up * ?lo)"
    by simp
  show ?thesis
    using ge by (simp add: get_joint_penalty_def Let_def not_less)
qed

theorem get_joint_penalty_cases_witness:
  "(fst (pLim arm1_off_centre 0) < joint_position arm1_off_centre 0
      \<and> joint_position arm1_off_centre 0 < snd (pLim arm1_off_centre 0))
   \<and> 0 < penalty_gradient arm1_off_centre 0 * joint_velocity arm1_off_centre 0
   \<and> get_joint_penalty arm1_off_centre 0 = 4 / 3
   \<and> 1 \<le> get_joint_penalty arm1_off_centre 0"
proof -
  have a: "fst (pLim arm1_off_centre 0) < joint_position arm1_off_centre 0"
    and b: "joint_position arm1_off_centre 0 < snd (pLim arm1_off_centre 0)"
    by (simp_all add: arm1_off_centre_def arm1_def)
  have c: "0 < penalty_gradient arm1_off_centre 0 * joint_velocity arm1_off_centre 0"
    by (simp add: penalty_gradient_def arm1_off_centre_def arm1_def Let_def)
  from get_joint_penalty_cases [OF a b] c
  have "get_joint_penalty arm1_off_centre 0 =
          (snd (pLim arm1_off_centre 0) - fst (pLim arm1_off_centre 0))
          * (snd (pLim arm1_off_centre 0) - fst (pLim arm1_off_centre 0))
          / (4 * (snd (pLim arm1_off_centre 0) - joint_position arm1_off_centre 0)
               * (joint_position arm1_off_centre 0 - fst (pLim arm1_off_centre 0)))"
    and d: "1 \<le> get_joint_penalty arm1_off_centre 0"
    by simp_all
  then have "get_joint_penalty arm1_off_centre 0 = 4 / 3"
    by (simp add: arm1_off_centre_def arm1_def)
  with a b c d show ?thesis by simp
qed

section \<open>The acceleration argument of track_joint_trajectory\<close>

text \<open>
  Claim C10. For a fixed control state and fixed position and velocity targets, the
  three-argument \<open>track_joint_trajectory\<close> returns the same command and the same
  diagnostics for any two acceleration vectors of \<open>n\<close> coefficients: the argument is
  size-checked and not used otherwise. This holds whatever \<open>move_joints\<close> computes from
  the state and the command it is given.
\<close>

theorem track_joint_trajectory_acc_irrelevant:
  assumes "length acc1 = n_joints s" and "length acc2 = n_joints s"
  shows "track_joint_trajectory_acc mj s pos vel acc1
       = track_joint_trajectory_acc mj s pos vel acc2"
  using assms by (simp add: track_joint_trajectory_acc_def)

theorem track_joint_trajectory_acc_irrelevant_witness:
  "length [5::real] = n_joints arm1 \<and> length [- 7::real] = n_joints arm1
   \<and> track_joint_trajectory_acc pass_command arm1 [1] [2] [5] = ([], [3])
   \<and> track_joint_trajectory_acc pass_command arm1 [1] [2] [- 7] = ([], [3])"
proof -
  have a: "length [5::real] = n_joints arm1" and b: "length [- 7::real] = n_joints arm1"
    by (simp_all add: arm1_def)
  have c: "track_joint_trajectory_acc pass_command arm1 [1] [2] [5] = ([], [3])"
    by (simp add: track_joint_trajectory_acc_def pass_command_def arm1_def vadd_def smul_def
        vsub_def get_joint_positions_def)
  from track_joint_trajectory_acc_irrelevant [OF a b, of pass_command "[1]" "[2]"] a b c
  show ?thesis by simp
qed

section \<open>Inputs of the wrong size\<close>

lemma n_joints_arm1: "n_joints arm1 = Suc 0"
  by (simp add: arm1_def)

lemma joint_velocities_arm1: "get_joint_velocities arm1 = [1]"
  by (simp add: get_joint_velocities_def arm1_def)

lemma speed_limit_arm1: "get_speed_limit arm1 0 = (- 1, 1)"
  by (simp add: get_speed_limit_def arm1_def Let_def)

text \<open>
  Claim C1, as amended. On an input whose size differs from the joint count,
  \<open>move_at_speed\<close>, \<open>move_to_position\<close>, \<open>move_to_pose\<close>,
  \<open>track_cartesian_trajectory\<close>, the two-argument \<open>track_joint_trajectory\<close> and
  \<open>solve_joint_control\<close> write one diagnostic and return 0.9 times the vector of
  current joint velocities. The three-argument \<open>track_joint_trajectory\<close> writes one
  diagnostic and returns the zero vector of \<open>n\<close> coefficients.
\<close>

theorem wrong_size_fallback:
  "(length redundant \<noteq> n_joints s \<longrightarrow>
      move_at_speed E P s vel redundant
        = Some (Returned [ERROR ''move_at_speed''] (smul 0.9 (get_joint_velocities s)))
      \<and> move_to_pose E P s p redundant
        = Some (Returned [ERROR ''move_to_pose''] (smul 0.9 (get_joint_velocities s)))
      \<and> track_cartesian_trajectory E P s p vel redundant
        = Some (Returned [ERROR ''track_cartesian_trajectory'']
                  (smul 0.9 (get_joint_velocities s))))
   \<and> (length pos \<noteq> n_joints s \<longrightarrow>
      move_to_position s pos
        = ([ERROR ''move_to_position''], smul 0.9 (get_joint_velocities s)))
   \<and> (length pos \<noteq> n_joints s \<or> length jvel \<noteq> n_joints s \<longrightarrow>
      track_joint_trajectory s pos jvel
        = ([ERROR ''track_joint_trajectory''], smul 0.9 (get_joint_velocities s)))
   \<and> (length y \<noteq> n_joints s \<or> rows U \<noteq> n_joints s \<or> cols U \<noteq> n_joints s \<longrightarrow>
      solve_joint_control s y U
        = ([ERROR ''solve_joint_control''], smul 0.9 (get_joint_velocities s)))
   \<and> (length pos \<noteq> n_joints s \<or> length jvel \<noteq> n_joints s \<or> length acc \<noteq> n_joints s \<longrightarrow>
      track_joint_trajectory_acc mj s pos jvel acc
        = ([ERROR ''track_joint_trajectory''], Zero (n_joints s)))"
  by (simp add: move_at_speed_def move_to_pose_def track_cartesian_trajectory_def
      move_to_position_def track_joint_trajectory_def solve_joint_control_def
      track_joint_trajectory_acc_def)

theorem wrong_size_fallback_witness:
  "length ([] :: vec) \<noteq> n_joints arm1
   \<and> move_at_speed sample_externals sample_params arm1 [0, 0, 0, 0, 0, 0] []
       = Some (Returned [ERROR ''move_at_speed''] [9 / 10])
   \<and> move_to_pose sample_externals sample_params arm1 turned_pose []
       = Some (Returned [ERROR ''move_to_pose''] [9 / 10])
   \<and> track_cartesian_trajectory sample_externals sample_params arm1 turned_pose
         [0, 0, 0, 0, 0, 0] []
       = Some (Returned [ERROR ''track_cartesian_trajectory''] [9 / 10])
   \<and> move_to_position arm1 [] = ([ERROR ''move_to_position''], [9 / 10])
   \<and> track_joint_trajectory arm1 [] [] = ([ERROR ''track_joint_trajectory''], [9 / 10])
   \<and> solve_joint_control arm1 [] (Identity 1 1) = ([ERROR ''solve_joint_control''], [9 / 10])
   \<and> track_joint_trajectory_acc pass_command arm1 [] [] []
       = ([ERROR ''track_joint_trajectory''], [0])"
  using wrong_size_fallback [of "[]" arm1 sample_externals sample_params "[0, 0, 0, 0, 0, 0]"
      turned_pose "[]" "[]" "[]" "Identity 1 1" "[]" pass_command]
  by (simp add: n_joints_arm1 joint_velocities_arm1 smul_def Zero_def)

text \<open>
  The claim as first stated fails: with a position target of the wrong size the
  three-argument \<open>track_joint_trajectory\<close> returns the zero vector, while 0.9 times the
  current joint velocities is not zero.
\<close>

theorem wrong_size_not_always_damped:
  "snd (track_joint_trajectory_acc pass_command arm1 [] [0] [0]) = [0]
   \<and> smul 0.9 (get_joint_velocities arm1) = [9 / 10]
   \<and> snd (track_joint_trajectory_acc pass_command arm1 [] [0] [0])
       \<noteq> smul 0.9 (get_joint_velocities arm1)"
  by (simp add: track_joint_trajectory_acc_def n_joints_arm1 joint_velocities_arm1 smul_def
      Zero_def)

section \<open>solve_joint_control\<close>

text \<open>
  Claim C3 at a concrete input. One joint at position 0 with position limits \<open>[-1, 1]\<close>,
  velocity and acceleration limit 1 and period 1 has the speed bounds \<open>[-1, 1]\<close>. For the
  system \<open>1 * qdot = 0\<close> back-substitution gives the command 0, which lies inside the
  bounds and which the clamp of the sibling functions leaves unchanged. Because
  \<open>solve_joint_control\<close> receives the two bounds in exchanged variables, it returns 1.
\<close>

theorem solve_joint_control_exchanges_bounds:
  "get_speed_limit arm1 0 = (- 1, 1)
   \<and> limit_speed (get_speed_limit arm1 0) ((0 - 0) / coeff (Identity 1 1) 0 0) = 0
   \<and> solve_joint_control arm1 [0] (Identity 1 1) = ([], [1])"
  by (simp add: solve_joint_control_def Identity_def Zero_def speed_limit_arm1 n_joints_arm1
      limit_speed_def)

theorem solve_joint_control_exchanges_bounds_witness:
  "snd (solve_joint_control arm1 [0] (Identity 1 1))
     \<noteq> [limit_speed (get_speed_limit arm1 0) ((0 - 0) / coeff (Identity 1 1) 0 0)]"
  using solve_joint_control_exchanges_bounds by (simp add: limit_speed_def)

section \<open>get_pose_error\<close>

text \<open>
  Claim C4 at a concrete input. The desired orientation is the unit quaternion
  \<open>(3/5, 4/5, 0, 0)\<close>, the actual one the identity. Their dot product \<open>3/5\<close> is
  positive and the vector part of \<open>qd * conj(qa)\<close> is \<open>(4/5, 0, 0)\<close>; the tail of the
  error that the function returns is its negation. \<open>Pose::error\<close>, on the same two
  poses, returns the vector part itself.
\<close>

theorem get_pose_error_negates_on_positive_dot:
  "quat_dot (orientation turned_pose) (orientation identity_pose) = 3 / 5
   \<and> quat_vec (quat_mul (orientation turned_pose) (conjugate (orientation identity_pose)))
       = [4 / 5, 0, 0]
   \<and> get_pose_error turned_pose identity_pose = [0, 0, 0, - (4 / 5), 0, 0]
   \<and> Pose_error identity_pose turned_pose = [0, 0, 0, 4 / 5, 0, 0]"
proof -
  have "arccos (3 / 5) < pi" using arccos_lt_bounded [of "3 / 5"] by simp
  then show ?thesis
    by (simp add: get_pose_error_def Pose_error_def turned_pose_def identity_pose_def
        quat_mul_def conjugate_def quat_dot_def quat_vec_def sub3_def cross_def vsub_def
        vadd_def smul_def Let_def)
qed

section \<open>The dimension checks of solve\<close>

text \<open>
  What the two overloads do check: a Hessian that is not \<open>n\<close> by \<open>n\<close>, a linear term
  that has not \<open>n\<close> coefficients and, with constraints, a \<open>c\<close> whose size is not the
  number of rows of \<open>B\<close>. Each returns the initial guess with one diagnostic.
\<close>

lemma solve_checked_dimensions:
  "rows H \<noteq> length x0 \<or> cols H \<noteq> length x0 \<or> length f \<noteq> length x0
     \<Longrightarrow> solve E H f x0 = ([ERROR ''solve''], x0)"
  "rows H \<noteq> length x0 \<or> cols H \<noteq> length x0 \<or> length f \<noteq> length x0
     \<or> rows B \<noteq> length c
     \<Longrightarrow> solve_ineq E P H f B c x0 = Some (Returned [ERROR ''solve''] x0)"
  by (simp_all add: solve_def solve_ineq_def)

text \<open>
  Claim C5 at a concrete input. \<open>H\<close> is 1 by 1, \<open>f\<close>, \<open>c\<close> and \<open>x0\<close> have one
  coefficient and \<open>B\<close> is 1 by 2: \<open>B\<close> has not as many columns as \<open>x0\<close> has rows. The
  check passes, no diagnostic is written, and the first iteration multiplies a row of two
  coefficients with an iterate of one.
\<close>

theorem solve_ineq_unchecked_columns:
  "cols wide_B \<noteq> length [0::real]
   \<and> solve_ineq sample_externals sample_params (Identity 1 1) [0] wide_B [0] [0]
       = Some Eigen_fault"
  by (simp add: solve_ineq_def sample_params_def wide_B_def Identity_def)

theorem solve_ineq_unchecked_columns_witness:
  "solve_ineq sample_externals sample_params (Identity 1 1) [0] wide_B [0] [0]
     \<noteq> Some (Returned [ERROR ''solve''] [0])"
  using solve_ineq_unchecked_columns by simp

section \<open>singularity_avoidance\<close>

text \<open>
  Claim C8. On a robot with at least one joint and for a positive scalar,
  \<open>singularity_avoidance\<close> returns, without a diagnostic, a vector of \<open>n\<close> coefficients
  whose first coefficient is zero. For a scalar that is not positive it returns the zero
  vector of \<open>n\<close> coefficients and one diagnostic. The function assigns no member of the
  control state, which is why the embedding returns no new state.
\<close>

theorem singularity_avoidance_first_component:
  "(0 < scalar \<and> 0 < n_joints s \<longrightarrow>
      (\<exists>grad. singularity_avoidance E s scalar = Returned [] grad
              \<and> length grad = n_joints s \<and> grad ! 0 = 0))
   \<and> (scalar \<le> 0 \<longrightarrow>
      singularity_avoidance E s scalar
        = Returned [ERROR ''singularity_avoidance''] (Zero (n_joints s)))"
  by (auto simp add: singularity_avoidance_def Let_def)

theorem singularity_avoidance_first_component_witness:
  "(0 < (1 / 2 :: real) \<and> 0 < n_joints arm1)
   \<and> (\<exists>grad. singularity_avoidance sample_externals arm1 (1 / 2) = Returned [] grad
             \<and> length grad = n_joints arm1 \<and> grad ! 0 = 0)
   \<and> (- 1 :: real) \<le> 0
   \<and> singularity_avoidance sample_externals arm1 (- 1)
       = Returned [ERROR ''singularity_avoidance''] [0]"
  using singularity_avoidance_first_component [of "1 / 2" arm1 sample_externals]
    singularity_avoidance_first_component [of "- 1" arm1 sample_externals]
  by (simp add: n_joints_arm1 Zero_def)

section \<open>The pass over the constraints\<close>

lemma pass_upto_0:
  "pass_upto P H B c x u 0
     = \<lparr>violation = False, acc_u = u, acc_g = Zero (length x), acc_I = H, acc_d = [],
        acc_finite = True\<rparr>"
  by (simp add: pass_upto_def)

lemma pass_upto_Suc:
  "pass_upto P H B c x u (Suc m) = constraint_step P B c x (pass_upto P H B c x u m) m"
  by (simp add: pass_upto_def)

lemma constraint_pass_upto: "constraint_pass P H B c x u = pass_upto P H B c x u (rows B)"
  by (simp add: constraint_pass_def pass_upto_def)

lemma violated_upto_Suc:
  "violated_upto B c x (Suc m)
     = violated_upto B c x m @ (if slack B c x m < 0 then [m] else [])"
  by (simp add: violated_upto_def)

lemma barrier_weight_Suc:
  "barrier_weight P B c x u (Suc m)
     = (if slack B c x m < 0 then barrier_weight P B c x u m * uMod P
        else barrier_weight P B c x u m)"
  by (simp add: barrier_weight_def violated_upto_Suc)

lemma step_u:
  "acc_u (constraint_step P B c x a m)
     = (if slack B c x m < 0 then acc_u a * uMod P else acc_u a)"
  by (simp add: constraint_step_def slack_def Let_def)

lemma step_violation:
  "violation (constraint_step P B c x a m) = (violation a \<or> slack B c x m < 0)"
  by (simp add: constraint_step_def slack_def Let_def)

lemma step_d:
  "acc_d (constraint_step P B c x a m) = acc_d a @ [clamped_slack B c x m]"
  by (simp add: constraint_step_def slack_def clamped_slack_def Let_def)

lemma step_g:
  "acc_g (constraint_step P B c x a m)
     = vadd (acc_g a)
         (smul (- (acc_u (constraint_step P B c x a m) / clamped_slack B c x m)) (mrow B m))"
  by (simp add: constraint_step_def slack_def clamped_slack_def Let_def)

lemma step_I:
  "acc_I (constraint_step P B c x a m)
     = mat_add (acc_I a)
         (mat_scale (acc_u (constraint_step P B c x a m)
                      / (clamped_slack B c x m * clamped_slack B c x m))
            (outer (mrow B m) (mrow B m)))"
  by (simp add: constraint_step_def slack_def clamped_slack_def Let_def)

lemma pass_upto_u: "acc_u (pass_upto P H B c x u m) = barrier_weight P B c x u m"
  by (induction m) (simp_all add: pass_upto_0 pass_upto_Suc step_u barrier_weight_Suc,
      simp add: barrier_weight_def violated_upto_def)

lemma pass_step_u:
  "acc_u (constraint_step P B c x (pass_upto P H B c x u m) m)
     = barrier_weight P B c x u (Suc m)"
  using pass_upto_u [of P H B c x u "Suc m"] by (simp add: pass_upto_Suc)

lemma pass_upto_violation:
  "violation (pass_upto P H B c x u m) = (violated_upto B c x m \<noteq> [])"
  by (induction m) (simp_all add: pass_upto_0 pass_upto_Suc step_violation violated_upto_Suc,
      simp add: violated_upto_def)

lemma pass_upto_d: "acc_d (pass_upto P H B c x u m) = map (clamped_slack B c x) [0..<m]"
  by (induction m) (simp_all add: pass_upto_0 pass_upto_Suc step_d)

lemma pass_upto_g:
  "acc_g (pass_upto P H B c x u m)
     = foldl vadd (Zero (length x))
         (map (\<lambda>j. smul (- (barrier_weight P B c x u (Suc j) / clamped_slack B c x j))
                      (mrow B j)) [0..<m])"
  by (induction m) (simp_all add: pass_upto_0 pass_upto_Suc step_g pass_step_u)

lemma pass_upto_I:
  "rows (acc_I (pass_upto P H B c x u m)) = rows H
   \<and> cols (acc_I (pass_upto P H B c x u m)) = cols H
   \<and> coeff (acc_I (pass_upto P H B c x u m)) i l
       = coeff H i l
         + (\<Sum>j\<leftarrow>[0..<m]. barrier_weight P B c x u (Suc j)
                              / (clamped_slack B c x j * clamped_slack B c x j)
                              * (mrow B j ! i * mrow B j ! l))"
  by (induction m)
    (simp_all add: pass_upto_0 pass_upto_Suc step_I pass_step_u mat_add_def
      mat_scale_def outer_def)


lemma step_finite:
  "acc_finite (constraint_step P B c x a m) = (acc_finite a \<and> slack B c x m \<noteq> 0)"
  by (simp add: constraint_step_def slack_def Let_def)

lemma pass_upto_finite:
  "acc_finite (pass_upto P H B c x u m) = (\<forall>j<m. slack B c x j \<noteq> 0)"
  by (induction m) (auto simp add: pass_upto_0 pass_upto_Suc step_finite less_Suc_eq)

lemma feasible_iff_none_violated:
  "feasible B c x \<longleftrightarrow> violated_upto B c x (rows B) = []"
  by (auto simp add: feasible_def violated_upto_def list_all_iff filter_empty_conv not_less)


lemma direction_fields:
  "w_d (newton_direction E P H f B c st) = map (clamped_slack B c (ip_x st)) [0..<rows B]"
  "w_u (newton_direction E P H f B c st) = barrier_weight P B c (ip_x st) (ip_u st) (rows B)"
  "w_x (newton_direction E P H f B c st)
     = (if feasible B c (ip_x st) then ip_x st else ip_x_prev st)"
  "w_beta (newton_direction E P H f B c st)
     = (if feasible B c (ip_x st) then ip_beta st
        else ip_beta st + betaMod P * (1 - ip_beta st))"
  "w_I (newton_direction E P H f B c st)
     = acc_I (pass_upto P H B c (ip_x st) (ip_u st) (rows B))"
  "w_g (newton_direction E P H f B c st)
     = vadd (acc_g (pass_upto P H B c (ip_x st) (ip_u st) (rows B)))
         (vsub (mat_vec H (w_x (newton_direction E P H f B c st))) f)"
  "w_dx (newton_direction E P H f B c st)
     = partialPivLu_solve E (w_I (newton_direction E P H f B c st))
         (map uminus (w_g (newton_direction E P H f B c st)))"
  "w_finite (newton_direction E P H f B c st) = (\<forall>j<rows B. slack B c (ip_x st) j \<noteq> 0)"
  by (simp_all add: newton_direction_def Let_def constraint_pass_upto pass_upto_d pass_upto_u
      pass_upto_violation feasible_iff_none_violated pass_upto_finite)

lemma power_gt_self:
  fixes a u :: real
  assumes "1 < a" and "0 < u" and "0 < k"
  shows "u < u * a ^ k"
proof -
  have "1 < a ^ k" using assms by (simp add: one_less_power)
  then show ?thesis using assms by simp
qed

lemma toward_one:
  fixes b m :: real
  assumes "0 \<le> m" and "m \<le> 1"
  shows "\<bar>1 - (b + m * (1 - b))\<bar> \<le> \<bar>1 - b\<bar>"
proof -
  have "1 - (b + m * (1 - b)) = (1 - m) * (1 - b)" by (simp add: algebra_simps)
  then have "\<bar>1 - (b + m * (1 - b))\<bar> = (1 - m) * \<bar>1 - b\<bar>"
    using assms by (simp add: abs_mult)
  also have "\<dots> \<le> 1 * \<bar>1 - b\<bar>"
    using assms by (intro mult_right_mono) simp_all
  finally show ?thesis by simp
qed

text \<open>
  Claim C7. In an iteration that starts from the state \<open>st\<close>, with \<open>x\<close> its iterate:
  the distances used are the clamped slacks, so that a negative slack enters the gradient
  and the Hessian as the floor \<open>0.01\<close>; the barrier weight is multiplied by \<open>uMod\<close>
  once for each violated constraint, the gradient and the Hessian taking for constraint
  \<open>j\<close> the weight reached after constraint \<open>j\<close>; when some slack is negative, \<open>x\<close>
  goes back to the previous iterate and \<open>beta\<close> becomes \<open>beta + betaMod (1 - beta)\<close>,
  which is a larger \<open>u\<close> for \<open>uMod > 1\<close> and a \<open>beta\<close> no further from 1 for
  \<open>betaMod\<close> between 0 and 1; when no slack is negative, \<open>x\<close>, \<open>beta\<close> and \<open>u\<close>
  are left as they are.
\<close>

theorem constraint_violation_handling:
  "w_d (newton_direction E P H f B c st) = map (clamped_slack B c (ip_x st)) [0..<rows B]
   \<and> w_g (newton_direction E P H f B c st)
       = vadd (foldl vadd (Zero (length (ip_x st)))
                 (map (\<lambda>j. smul (- (barrier_weight P B c (ip_x st) (ip_u st) (Suc j)
                                      / clamped_slack B c (ip_x st) j)) (mrow B j))
                    [0..<rows B]))
           (vsub (mat_vec H (w_x (newton_direction E P H f B c st))) f)
   \<and> (\<forall>i l. coeff (w_I (newton_direction E P H f B c st)) i l
         = coeff H i l
           + (\<Sum>j\<leftarrow>[0..<rows B]. barrier_weight P B c (ip_x st) (ip_u st) (Suc j)
                / (clamped_slack B c (ip_x st) j * clamped_slack B c (ip_x st) j)
                * (mrow B j ! i * mrow B j ! l)))
   \<and> w_u (newton_direction E P H f B c st)
       = ip_u st * uMod P ^ length (violated_upto B c (ip_x st) (rows B))
   \<and> (\<not> feasible B c (ip_x st) \<longrightarrow>
        w_x (newton_direction E P H f B c st) = ip_x_prev st
        \<and> w_beta (newton_direction E P H f B c st)
            = ip_beta st + betaMod P * (1 - ip_beta st)
        \<and> (1 < uMod P \<and> 0 < ip_u st \<longrightarrow> ip_u st < w_u (newton_direction E P H f B c st))
        \<and> (0 \<le> betaMod P \<and> betaMod P \<le> 1 \<longrightarrow>
             \<bar>1 - w_beta (newton_direction E P H f B c st)\<bar> \<le> \<bar>1 - ip_beta st\<bar>))
   \<and> (feasible B c (ip_x st) \<longrightarrow>
        w_x (newton_direction E P H f B c st) = ip_x st
        \<and> w_beta (newton_direction E P H f B c st) = ip_beta st
        \<and> w_u (newton_direction E P H f B c st) = ip_u st)"
proof -
  have grow: "\<not> feasible B c (ip_x st) \<Longrightarrow> 1 < uMod P \<Longrightarrow> 0 < ip_u st
      \<Longrightarrow> ip_u st < barrier_weight P B c (ip_x st) (ip_u st) (rows B)"
    unfolding barrier_weight_def
    by (rule power_gt_self) (simp_all add: feasible_iff_none_violated)
  have same: "feasible B c (ip_x st)
      \<Longrightarrow> barrier_weight P B c (ip_x st) (ip_u st) (rows B) = ip_u st"
    by (simp add: barrier_weight_def feasible_iff_none_violated)
  show ?thesis
    using grow same
    by (simp add: direction_fields pass_upto_g pass_upto_I toward_one)
      (simp add: barrier_weight_def)
qed

lemma outside_not_feasible: "\<not> feasible (box_B 1) (box_c [0] [1]) (ip_x state_outside)"
  by (simp add: feasible_def slack_def box_B_def box_c_def mrow_def dot_def numeral_2_eq_2
      state_outside_def)

lemma inside_feasible: "feasible (box_B 1) (box_c [0] [1]) (ip_x state_inside)"
  by (simp add: feasible_def slack_def box_B_def box_c_def mrow_def dot_def numeral_2_eq_2
      state_inside_def)

theorem constraint_violation_handling_witness:
  "\<not> feasible (box_B 1) (box_c [0] [1]) (ip_x state_outside)
   \<and> w_x (newton_direction sample_externals short_params (Identity 1 1) [2] (box_B 1)
            (box_c [0] [1]) state_outside) = [1 / 2]
   \<and> w_beta (newton_direction sample_externals short_params (Identity 1 1) [2] (box_B 1)
            (box_c [0] [1]) state_outside) = 109 / 1000
   \<and> w_u (newton_direction sample_externals short_params (Identity 1 1) [2] (box_B 1)
            (box_c [0] [1]) state_outside) = 10
   \<and> w_d (newton_direction sample_externals short_params (Identity 1 1) [2] (box_B 1)
            (box_c [0] [1]) state_outside) = [1 / 100, 5]
   \<and> feasible (box_B 1) (box_c [0] [1]) (ip_x state_inside)
   \<and> w_x (newton_direction sample_externals short_params (Identity 1 1) [2] (box_B 1)
            (box_c [0] [1]) state_inside) = [1 / 2]
   \<and> w_beta (newton_direction sample_externals short_params (Identity 1 1) [2] (box_B 1)
            (box_c [0] [1]) state_inside) = 1 / 100
   \<and> w_u (newton_direction sample_externals short_params (Identity 1 1) [2] (box_B 1)
            (box_c [0] [1]) state_inside) = 1"
proof -
  have v: "violated_upto (box_B 1) (box_c [0] [1]) (ip_x state_outside) (rows (box_B 1)) = [0]"
    by (simp add: violated_upto_def slack_def box_B_def box_c_def mrow_def dot_def
        numeral_2_eq_2 state_outside_def)
  have d: "map (clamped_slack (box_B 1) (box_c [0] [1]) (ip_x state_outside))
             [0..<rows (box_B 1)] = [1 / 100, 5]"
    by (simp add: clamped_slack_def slack_def box_B_def box_c_def mrow_def dot_def
        numeral_2_eq_2 state_outside_def)
  have p: "betaMod short_params = 1 / 10" "uMod short_params = 10"
    by (simp_all add: short_params_def)
  have s: "ip_x_prev state_outside = [1 / 2]" "ip_beta state_outside = 1 / 100"
    "ip_u state_outside = 1" "ip_x state_inside = [1 / 2]" "ip_beta state_inside = 1 / 100"
    "ip_u state_inside = 1"
    by (simp_all add: state_outside_def state_inside_def)
  show ?thesis
    using constraint_violation_handling [of sample_externals short_params "Identity 1 1" "[2]"
        "box_B 1" "box_c [0] [1]" state_outside]
      constraint_violation_handling [of sample_externals short_params "Identity 1 1" "[2]"
        "box_B 1" "box_c [0] [1]" state_inside]
      outside_not_feasible inside_feasible v d p s
    by simp
qed

section \<open>The step-size search\<close>

lemma shrink_stop: "\<not> d + alpha * s < 0 \<Longrightarrow> shrink am d s alpha = Some alpha"
  by (subst shrink.simps) simp

lemma shrink_go: "d + alpha * s < 0 \<Longrightarrow> shrink am d s alpha = shrink am d s (alpha * am)"
  by (subst shrink.simps) simp






section \<open>The exits of the interior-point loop\<close>









lemma norm2_single: "norm2 [a] = \<bar>a\<bar>"
  by (simp add: norm2_def)

lemmas run_defs = ip_iteration_def newton_direction_def constraint_pass_def
  constraint_step_def Let_def mrow_def dot_def vadd_def vsub_def smul_def mat_vec_def
  mat_add_def mat_scale_def outer_def Zero_def Identity_def box_B_def box_c_def
  sample_externals_def eigen_lu_def norm2_single shrink_stop shrink_go numeral_2_eq_2
  ip_start_def unit_H_def unit_box_B_def unit_box_c_def






section \<open>Feasible iterates\<close>




















section \<open>Box constraints\<close>










lemma sample_run_steps: "nat (steps sample_params) = Suc 19"
  by (simp add: sample_params_def)




text \<open>
  Two runs that end in NaN. From the initial guess \<open>x0 = xMax = 1\<close> the first iteration
  divides by the zero slack of the upper bound. From \<open>x0 = 1/2\<close> with \<open>f = 401\<close> the
  first step is \<open>1/2\<close>, the full step is accepted since it leaves the slack \<open>0\<close>, and
  the second iteration divides by it.
\<close>

lemma boundary_start_not_finite:
  "least_squares_box sample_externals sample_params [- 1] unit_H unit_H [0] [1] [1]
     = Some Not_finite"
proof -
  have d: "rows unit_H = Suc 0" "cols unit_H = Suc 0"
    by (simp_all add: unit_H_def Identity_def)
  have it: "ip_iteration sample_externals sample_params
     (mat_mul (mat_mul (transpose_mat unit_H) unit_H) unit_H)
     (mat_vec (mat_mul (transpose_mat unit_H) unit_H) [- 1])
     (box_B (Suc 0)) (box_c [0] [1]) (ip_start sample_params [1]) = Some Nan_step"
    by (simp add: run_defs sample_params_def mat_mul_def transpose_mat_def)
  have "ip_loop sample_externals sample_params
     (mat_mul (mat_mul (transpose_mat unit_H) unit_H) unit_H)
     (mat_vec (mat_mul (transpose_mat unit_H) unit_H) [- 1])
     (box_B (Suc 0)) (box_c [0] [1]) (Suc 19) (ip_start sample_params [1])
       = Some Not_finite"
    by (simp only: ip_loop.simps it option.case ip_ctl.case)
  then have "ip_loop sample_externals sample_params
     (mat_mul (mat_mul (transpose_mat unit_H) unit_H) unit_H)
     (mat_vec (mat_mul (transpose_mat unit_H) unit_H) [- 1])
     (box_B (Suc 0)) (box_c [0] [1]) (nat (steps sample_params)) (ip_start sample_params [1])
       = Some Not_finite"
    by (simp only: sample_run_steps)
  moreover have "0 < steps sample_params" by (simp add: sample_params_def)
  ultimately show ?thesis
    by (simp add: least_squares_box_def solve_ineq_def Let_def d
        mat_mul_def transpose_mat_def box_B_def box_c_def mat_vec_def)
qed

lemma landing_on_bound_not_finite:
  "solve_ineq sample_externals sample_params unit_H [401] unit_box_B unit_box_c [1 / 2]
     = Some Not_finite"
proof -
  have it1: "ip_iteration sample_externals sample_params unit_H [401] unit_box_B unit_box_c
      (ip_start sample_params [1 / 2])
    = Some (Continue \<lparr>ip_x = [1], ip_x_prev = [1 / 2], ip_u = 1, ip_beta = 1 / 100\<rparr>)"
    by (simp add: run_defs sample_params_def)
  have it2: "ip_iteration sample_externals sample_params unit_H [401] unit_box_B unit_box_c
      \<lparr>ip_x = [1], ip_x_prev = [1 / 2], ip_u = 1, ip_beta = 1 / 100\<rparr> = Some Nan_step"
    by (simp add: run_defs sample_params_def)
  have "ip_loop sample_externals sample_params unit_H [401] unit_box_B unit_box_c
      (Suc (Suc 18)) (ip_start sample_params [1 / 2]) = Some Not_finite"
    by (simp only: ip_loop.simps it1 it2 option.case ip_ctl.case)
  moreover have "nat (steps sample_params) = Suc (Suc 18)" by (simp add: sample_params_def)
  ultimately have "ip_loop sample_externals sample_params unit_H [401] unit_box_B unit_box_c
      (nat (steps sample_params)) (ip_start sample_params [1 / 2]) = Some Not_finite"
    by (simp only:)
  moreover have "rows unit_H = 1" "cols unit_H = 1" "rows unit_box_B = 2"
    "cols unit_box_B = 1" "length unit_box_c = 2"
    by (simp_all add: unit_H_def unit_box_B_def unit_box_c_def Identity_def box_B_def
        box_c_def)
  ultimately show ?thesis by (simp add: solve_ineq_def)
qed






end
